theory Spec2Isabelle
  imports Complex_Main "HOL-Library.Word"
begin

section \<open>Random value generation of the Origin library (origin/random.hpp)\<close>

text \<open>
  The header is a set of C++ class templates. Two things are embedded here:
  \<^item> the values the templates hold: a distribution object is its construction parameters
    (type \<open>dist\<close>), the registry \<open>default_distribution<T>()\<close> is a function on type
    descriptors, and a use of a template that the compiler rejects is the value \<open>None\<close>
    (for the registry) or \<open>Inl\<close> of a build error (for a call);
  \<^item> the call operators: invoking a distribution with an engine reads and advances the
    engine, so a distribution is invoked as a function \<open>'e \<Rightarrow> 'a \<times> 'e\<close> from the
    engine state to the drawn value and the next engine state.
\<close>

subsection \<open>Type descriptors and the concepts the registry dispatches on\<close>

datatype float_type = Float | Double | Long_double

text \<open>
  \<open>Integer s w\<close> is an integer type other than \<open>bool\<close>: signed when \<open>s\<close>, \<open>w\<close> bits wide.
  \<open>Sequence_of T\<close> stands for \<open>std::vector<T>\<close>, \<open>std::list<T>\<close>, \<open>std::deque<T>\<close>;
  \<open>Associative_of T\<close> for \<open>std::set<T>\<close> and the like; \<open>Other_type\<close> for a type that
  satisfies none of the concepts.
\<close>

datatype ctype =
    Bool
  | Integer bool nat
  | Floating float_type
  | Basic_string ctype
  | Tuple "ctype list"
  | Sequence_of ctype
  | Associative_of ctype
  | Other_type

text \<open>
  The concept predicates come from \<open>origin/concepts.hpp\<close>, which is not part of the
  sources at hand; they are written here on the type descriptors. \<open>bool\<close> is an integral
  type of C++, and a string is a sequence of its characters.
\<close>

fun Integral :: "ctype \<Rightarrow> bool" where
  "Integral Bool = True"
| "Integral (Integer s w) = True"
| "Integral T = False"

fun Floating_point :: "ctype \<Rightarrow> bool" where
  "Floating_point (Floating f) = True"
| "Floating_point T = False"

definition Arithmetic :: "ctype \<Rightarrow> bool" where
  "Arithmetic T = (Integral T \<or> Floating_point T)"

fun Sequence :: "ctype \<Rightarrow> bool" where
  "Sequence (Basic_string C) = True"
| "Sequence (Sequence_of T) = True"
| "Sequence T = False"

fun Associative_container :: "ctype \<Rightarrow> bool" where
  "Associative_container (Associative_of T) = True"
| "Associative_container T = False"

text \<open>\<open>std::size_t\<close>, the \<open>Size_type\<close> of every standard container (64 bits here).\<close>

definition size_t :: ctype where
  "size_t = Integer False 64"

text \<open>\<open>std::numeric_limits<T>::min()\<close> and \<open>max()\<close> of the integral types.\<close>

fun numeric_limits_min :: "ctype \<Rightarrow> int" where
  "numeric_limits_min (Integer s w) = (if s then - (2 ^ (w - 1)) else 0)"
| "numeric_limits_min T = 0"

fun numeric_limits_max :: "ctype \<Rightarrow> int" where
  "numeric_limits_max Bool = 1"
| "numeric_limits_max (Integer s w) = (if s then 2 ^ (w - 1) - 1 else 2 ^ w - 1)"
| "numeric_limits_max T = 0"

text \<open>
  The largest finite value of a floating-point type (\<open>FLT_MAX\<close>, \<open>DBL_MAX\<close>, \<open>LDBL_MAX\<close>
  of the x87 extended format); the lowest value is its negation.
\<close>

fun floating_max :: "float_type \<Rightarrow> real" where
  "floating_max Float = (2 ^ 24 - 1) * 2 ^ 104"
| "floating_max Double = (2 ^ 53 - 1) * 2 ^ 971"
| "floating_max Long_double = (2 ^ 64 - 1) * 2 ^ 16320"

subsection \<open>Distribution objects\<close>

text \<open>
  A distribution object is the values of its data members. The three distributions of the
  standard library hold their parameters \<open>a\<close>, \<open>b\<close> or \<open>p\<close>;
  \<open>single_value_distribution\<close> holds \<open>value\<close>, \<open>adapted_distribution\<close> holds \<open>dist\<close>,
  \<open>random_sequence_distribution\<close> holds \<open>size\<close> and \<open>gen\<close>,
  \<open>random_string_distribution\<close> is derived from it and adds nothing, and
  \<open>random_tuple_generator\<close> holds the tuple \<open>dists\<close>.
\<close>

datatype 'v dist =
    Uniform_int_distribution int int
  | Uniform_real_distribution real real
  | Bernoulli_distribution real
  | Single_value_distribution 'v
  | Adapted_distribution "'v dist"
  | Random_sequence_distribution "'v dist" "'v dist"
  | Random_string_distribution "'v dist" "'v dist"
  | Random_tuple_generator "'v dist list"

text \<open>
  The types of the distributions that the registry can name: the instances of the class
  templates, with the template arguments that matter for construction.
\<close>

datatype dist_type =
    Uniform_int_t ctype
  | Uniform_real_t ctype
  | Bernoulli_t
  | Random_sequence_t ctype dist_type dist_type
  | Random_string_t ctype dist_type dist_type
  | Random_tuple_t "dist_type list"

text \<open>
  \<open>Size{0, 32}\<close>, \<open>Alpha{33, 126}\<close>: construction from two integers, which among the types
  above only \<open>std::uniform_int_distribution\<close> has.
\<close>

fun construct2 :: "dist_type \<Rightarrow> int \<Rightarrow> int \<Rightarrow> 'v dist option" where
  "construct2 (Uniform_int_t T) x y = Some (Uniform_int_distribution x y)"
| "construct2 D x y = None"

text \<open>
  \<open>Dist{}\<close>, the default constructor of each type:
  \<^item> \<open>std::uniform_int_distribution<T>\<close>: \<open>a = 0\<close>, \<open>b = numeric_limits<T>::max()\<close>;
  \<^item> \<open>std::uniform_real_distribution<T>\<close>: \<open>a = 0.0\<close>, \<open>b = 1.0\<close>;
  \<^item> \<open>std::bernoulli_distribution\<close>: \<open>p = 0.5\<close>;
  \<^item> \<open>random_sequence_distribution(const Size& s = Size{0, 32}, const Gen& d = Gen{})\<close>;
  \<^item> \<open>random_string_distribution(const Len& l = Len{0, 32}, const Alpha& a = Alpha{33, 126})\<close>;
  \<^item> \<open>random_tuple_generator() : dists{}\<close>, every component default-constructed. With an
    empty pack the class declares \<open>random_tuple_generator()\<close> twice, which is ill-formed.
\<close>

fun default_construct :: "dist_type \<Rightarrow> 'v dist option"
  and default_construct_all :: "dist_type list \<Rightarrow> 'v dist list option" where
  "default_construct (Uniform_int_t T) = Some (Uniform_int_distribution 0 (numeric_limits_max T))"
| "default_construct (Uniform_real_t T) = Some (Uniform_real_distribution 0 1)"
| "default_construct Bernoulli_t = Some (Bernoulli_distribution (1 / 2))"
| "default_construct (Random_sequence_t Seq Size Gen) =
     (case construct2 Size 0 32 of None \<Rightarrow> None
      | Some s \<Rightarrow> (case default_construct Gen of None \<Rightarrow> None
         | Some d \<Rightarrow> Some (Random_sequence_distribution s d)))"
| "default_construct (Random_string_t Str Len Alpha) =
     (case construct2 Len 0 32 of None \<Rightarrow> None
      | Some l \<Rightarrow> (case construct2 Alpha 33 126 of None \<Rightarrow> None
         | Some a \<Rightarrow> Some (Random_string_distribution l a)))"
| "default_construct (Random_tuple_t Ds) =
     (if Ds = [] then None
      else (case default_construct_all Ds of None \<Rightarrow> None
         | Some ds \<Rightarrow> Some (Random_tuple_generator ds)))"
| "default_construct_all [] = Some []"
| "default_construct_all (D # Ds) =
     (case default_construct D of None \<Rightarrow> None
      | Some d \<Rightarrow> (case default_construct_all Ds of None \<Rightarrow> None
         | Some ds \<Rightarrow> Some (d # ds)))"

subsection \<open>The default-distribution registry\<close>

text \<open>\<open>Value_type<Seq>\<close>: the element type of a sequence; no such type otherwise.\<close>

fun Value_type :: "ctype \<Rightarrow> ctype option" where
  "Value_type (Basic_string C) = Some C"
| "Value_type (Sequence_of T) = Some T"
| "Value_type (Associative_of T) = Some T"
| "Value_type T = None"

text \<open>
  Each traits class declares \<open>static Dist get()\<close> and returns \<open>{}\<close> or \<open>Dist{}\<close>. The
  functions below compute \<open>Dist\<close>, the return type, which is where the classes differ;
  \<open>None\<close> means that the class or its \<open>get\<close> does not exist for the type.
\<close>

definition default_integral_distribution :: "ctype \<Rightarrow> dist_type option" where
  "default_integral_distribution T = (if Integral T then Some (Uniform_int_t T) else None)"

definition default_floating_point_distribution :: "ctype \<Rightarrow> dist_type option" where
  "default_floating_point_distribution T =
     (if Floating_point T then Some (Uniform_real_t T) else None)"

definition arithmetic_distribution :: "ctype \<Rightarrow> dist_type option" where
  "arithmetic_distribution T =
     (if Integral T then default_integral_distribution T
      else default_floating_point_distribution T)"

text \<open>
  The recursion of the registry: \<open>random_sequence_distribution<Seq>\<close> has the default
  template argument \<open>Gen = Default_distribution_type<Value_type<Seq>>\<close>, and the tuple
  specialisation names \<open>Default_distribution_type<Args>...\<close>. The explicit and partial
  specialisations of \<open>default_distribution_traits\<close> (\<open>bool\<close>, \<open>std::basic_string\<close>,
  \<open>std::tuple\<close>) are chosen before the primary template, which derives from
  \<open>traits::deduce_distribution<T>\<close>.
\<close>

fun default_distribution_traits :: "ctype \<Rightarrow> dist_type option"
  and default_distribution_traits_all :: "ctype list \<Rightarrow> dist_type list option"
  and deduce_distribution :: "ctype \<Rightarrow> dist_type option"
  and udt_distribution :: "ctype \<Rightarrow> dist_type option"
  and default_sequence_distribution :: "ctype \<Rightarrow> dist_type option" where
  "default_distribution_traits Bool = Some Bernoulli_t"
| "default_distribution_traits (Basic_string C) =
     Some (Random_string_t (Basic_string C) (Uniform_int_t size_t) (Uniform_int_t C))"
| "default_distribution_traits (Tuple Args) =
     (case default_distribution_traits_all Args of None \<Rightarrow> None
      | Some Ds \<Rightarrow> Some (Random_tuple_t Ds))"
| "default_distribution_traits T = deduce_distribution T"
| "default_distribution_traits_all [] = Some []"
| "default_distribution_traits_all (T # Ts) =
     (case default_distribution_traits T of None \<Rightarrow> None
      | Some D \<Rightarrow> (case default_distribution_traits_all Ts of None \<Rightarrow> None
         | Some Ds \<Rightarrow> Some (D # Ds)))"
| "deduce_distribution T =
     (if Arithmetic T then arithmetic_distribution T else udt_distribution T)"
| "udt_distribution T =
     (if Sequence T \<and> \<not> Associative_container T then default_sequence_distribution T
      else None)"
| "default_sequence_distribution (Sequence_of T) =
     (case default_distribution_traits T of None \<Rightarrow> None
      | Some Gen \<Rightarrow> Some (Random_sequence_t (Sequence_of T) (Uniform_int_t size_t) Gen))"
| "default_sequence_distribution (Basic_string C) =
     (case default_distribution_traits C of None \<Rightarrow> None
      | Some Gen \<Rightarrow> Some (Random_sequence_t (Basic_string C) (Uniform_int_t size_t) Gen))"
| "default_sequence_distribution T = None"

text \<open>\<open>Default_distribution_type<T>\<close> is \<open>decltype(default_distribution_traits<T>::get())\<close>.\<close>

definition Default_distribution_type :: "ctype \<Rightarrow> dist_type option" where
  "Default_distribution_type T = default_distribution_traits T"

text \<open>\<open>default_distribution<T>()\<close> returns \<open>default_distribution_traits<T>::get()\<close>.\<close>

definition default_distribution :: "ctype \<Rightarrow> 'v dist option" where
  "default_distribution T =
     (case default_distribution_traits T of None \<Rightarrow> None | Some D \<Rightarrow> default_construct D)"

subsection \<open>Equality of distributions\<close>

text \<open>
  The \<open>operator==\<close> of each class:
  \<^item> the distributions of the standard library compare their parameters;
  \<^item> \<open>single_value_distribution\<close>: \<open>value == x.value\<close>;
  \<^item> \<open>adapted_distribution\<close>: \<open>dist == x.dist\<close>;
  \<^item> \<open>random_sequence_distribution\<close>: \<open>equal(x)\<close>, that is \<open>size == x.size && gen == x.gen\<close>;
  \<^item> \<open>random_string_distribution\<close> inherits the operator of its base class, so a string
    distribution and a sequence distribution over the same \<open>Str\<close>, \<open>Len\<close> and \<open>Alpha\<close> can
    be compared with each other as well;
  \<^item> \<open>random_tuple_generator\<close>: \<open>dists == x.dists\<close>, the comparison of \<open>std::tuple\<close>,
    component by component from the first.
  Objects of unrelated classes have no common \<open>operator==\<close>; the last equations are never
  reached by a program that compiles.
\<close>

fun dist_eq :: "'v dist \<Rightarrow> 'v dist \<Rightarrow> bool"
  and dists_eq :: "'v dist list \<Rightarrow> 'v dist list \<Rightarrow> bool" where
  "dist_eq (Uniform_int_distribution a b) (Uniform_int_distribution a' b') = (a = a' \<and> b = b')"
| "dist_eq (Uniform_real_distribution a b) (Uniform_real_distribution a' b') = (a = a' \<and> b = b')"
| "dist_eq (Bernoulli_distribution p) (Bernoulli_distribution p') = (p = p')"
| "dist_eq (Single_value_distribution v) (Single_value_distribution v') = (v = v')"
| "dist_eq (Adapted_distribution d) (Adapted_distribution d') = dist_eq d d'"
| "dist_eq (Random_sequence_distribution s g) (Random_sequence_distribution s' g') =
     (dist_eq s s' \<and> dist_eq g g')"
| "dist_eq (Random_string_distribution s g) (Random_string_distribution s' g') =
     (dist_eq s s' \<and> dist_eq g g')"
| "dist_eq (Random_string_distribution s g) (Random_sequence_distribution s' g') =
     (dist_eq s s' \<and> dist_eq g g')"
| "dist_eq (Random_sequence_distribution s g) (Random_string_distribution s' g') =
     (dist_eq s s' \<and> dist_eq g g')"
| "dist_eq (Random_tuple_generator ds) (Random_tuple_generator ds') = dists_eq ds ds'"
| "dist_eq x y = False"
| "dists_eq [] [] = True"
| "dists_eq (d # ds) (d' # ds') = (dist_eq d d' \<and> dists_eq ds ds')"
| "dists_eq ds ds' = False"

text \<open>
  The class of a distribution object, with the classes of its members: two objects are of
  the same concrete kind when they are instances of the same class template with the same
  distribution types as arguments.
\<close>

datatype kind =
    K_uniform_int
  | K_uniform_real
  | K_bernoulli
  | K_single_value
  | K_adapted kind
  | K_random_sequence kind kind
  | K_random_string kind kind
  | K_random_tuple "kind list"

fun kind_of :: "'v dist \<Rightarrow> kind" where
  "kind_of (Uniform_int_distribution a b) = K_uniform_int"
| "kind_of (Uniform_real_distribution a b) = K_uniform_real"
| "kind_of (Bernoulli_distribution p) = K_bernoulli"
| "kind_of (Single_value_distribution v) = K_single_value"
| "kind_of (Adapted_distribution d) = K_adapted (kind_of d)"
| "kind_of (Random_sequence_distribution s g) = K_random_sequence (kind_of s) (kind_of g)"
| "kind_of (Random_string_distribution s g) = K_random_string (kind_of s) (kind_of g)"
| "kind_of (Random_tuple_generator ds) = K_random_tuple (map kind_of ds)"

subsection \<open>Drawing values: random variables, sequences and bulk fill\<close>

text \<open>
  \<open>random_variable<Eng, Dist>::operator()()\<close> returns \<open>dist(eng)\<close>. \<open>make_random(eng, gen)\<close>
  is called with lvalues, so the variable holds references and every call advances the
  caller's engine.
\<close>

definition random_variable_call :: "('e \<Rightarrow> 'a \<times> 'e) \<Rightarrow> 'e \<Rightarrow> 'a \<times> 'e" where
  "random_variable_call d eng = d eng"

definition make_random :: "('e \<Rightarrow> 'a \<times> 'e) \<Rightarrow> 'e \<Rightarrow> 'a \<times> 'e" where
  "make_random d = random_variable_call d"

text \<open>
  Modelled from the spec: \<open>generate(range, gen)\<close> of \<open>origin/algorithm.hpp\<close>, which is not
  part of the sources at hand. It assigns \<open>gen()\<close> to every position of the range, from the
  first to the last, as \<open>std::generate\<close> does and as the spec says of the sequence
  distribution ("fills each position ..., preserving generation order (position 0 first)").
\<close>

fun generate :: "'a list \<Rightarrow> ('e \<Rightarrow> 'a \<times> 'e) \<Rightarrow> 'e \<Rightarrow> 'a list \<times> 'e" where
  "generate [] f eng = ([], eng)"
| "generate (x # xs) f eng =
     (case f eng of (v, eng1) \<Rightarrow>
        (case generate xs f eng1 of (vs, eng2) \<Rightarrow> (v # vs, eng2)))"

text \<open>
  \<open>random_sequence_distribution::operator()\<close>:
  \<^verbatim>\<open>Seq s(size(eng), Value_type<Seq>{}); generate(s, make_random(eng, gen)); return std::move(s);\<close>
  The argument \<open>init\<close> is \<open>Value_type<Seq>{}\<close>, \<open>sz\<close> and \<open>gen\<close> are the calls of the members
  \<open>size\<close> and \<open>gen\<close>.
\<close>

definition random_sequence_distribution_call ::
  "'a \<Rightarrow> ('e \<Rightarrow> nat \<times> 'e) \<Rightarrow> ('e \<Rightarrow> 'a \<times> 'e) \<Rightarrow> 'e \<Rightarrow> 'a list \<times> 'e" where
  "random_sequence_distribution_call init sz gen eng =
     (case sz eng of (n, eng1) \<Rightarrow> generate (replicate n init) (make_random gen) eng1)"

text \<open>
  \<open>generate_random(first, last, eng, gen)\<close>:
  \<^verbatim>\<open>while(first != last) { *first = gen(eng); ++first; }\<close>
  The iterators \<open>first\<close> and \<open>lst\<close> (the source's \<open>last\<close>) are positions in the
  destination \<open>mem\<close>. A store through a position outside
  the destination is undefined in C++; it ends the run with \<open>None\<close>, which is also the value
  of a loop that never reaches \<open>lst\<close>.
\<close>

partial_function (option) generate_random ::
  "nat \<Rightarrow> nat \<Rightarrow> 'e \<Rightarrow> ('e \<Rightarrow> 'a \<times> 'e) \<Rightarrow> 'a list \<Rightarrow> ('a list \<times> 'e) option" where
  "generate_random first lst eng gen mem =
     (if first \<noteq> lst then
        (if first < length mem then
           (case gen eng of (v, eng1) \<Rightarrow>
              generate_random (Suc first) lst eng1 gen (mem[first := v]))
         else None)
      else Some (mem, eng))"

text \<open>
  \<open>generate_random(range, eng, gen)\<close> passes \<open>o_begin(range)\<close> and \<open>o_end(range)\<close>, the
  first position of the range and the position past its last.
\<close>

definition generate_random_range ::
  "'a list \<Rightarrow> 'e \<Rightarrow> ('e \<Rightarrow> 'a \<times> 'e) \<Rightarrow> ('a list \<times> 'e) option" where
  "generate_random_range rng eng gen = generate_random 0 (length rng) eng gen rng"

text \<open>
  The reading of the spec that the code is compared with: \<open>n\<close> successive draws, the
  \<open>i\<close>-th from the engine as the draws before it left it.
\<close>

fun draw_n :: "('e \<Rightarrow> 'a \<times> 'e) \<Rightarrow> nat \<Rightarrow> 'e \<Rightarrow> 'a list \<times> 'e" where
  "draw_n gen 0 eng = ([], eng)"
| "draw_n gen (Suc n) eng =
     (case gen eng of (v, eng1) \<Rightarrow>
        (case draw_n gen n eng1 of (vs, eng2) \<Rightarrow> (v # vs, eng2)))"

subsection \<open>The distributions of the standard library, invoked\<close>

text \<open>
  \<open>std::uniform_int_distribution<T>(a, b)\<close> invoked with an engine. Its algorithm belongs to
  the standard library, so the call is an argument \<open>U\<close> of the functions below, \<open>U a b eng\<close>
  being the drawn value and the next engine state. The standard promises a value between
  \<open>a\<close> and \<open>b\<close>, both included, when \<open>a \<le> b\<close>.
\<close>

definition uniform_int_contract :: "(int \<Rightarrow> int \<Rightarrow> 'e \<Rightarrow> int \<times> 'e) \<Rightarrow> bool" where
  "uniform_int_contract U =
     (\<forall>a b eng. a \<le> b \<longrightarrow> a \<le> fst (U a b eng) \<and> fst (U a b eng) \<le> b)"

text \<open>
  An engine for concrete runs: the state counts the draws made so far, and the \<open>k\<close>-th draw
  of a uniform integer steps through \<open>a, a + 1, \<dots>, b\<close> in turn.
\<close>

definition counting_uniform_int :: "int \<Rightarrow> int \<Rightarrow> nat \<Rightarrow> int \<times> nat" where
  "counting_uniform_int a b eng = (a + int eng mod (b - a + 1), Suc eng)"

text \<open>
  A counting stub in the place of a distribution: it draws the number of draws made before
  it and counts one more.
\<close>

definition counting_stub :: "nat \<Rightarrow> nat \<times> nat" where
  "counting_stub eng = (eng, Suc eng)"

text \<open>
  A \<open>std::uniform_int_distribution<Size_type<Seq>>\<close> invoked: the value is a
  \<open>std::size_t\<close>, a natural number.
\<close>

definition uniform_size_call ::
  "(int \<Rightarrow> int \<Rightarrow> 'e \<Rightarrow> int \<times> 'e) \<Rightarrow> int \<Rightarrow> int \<Rightarrow> 'e \<Rightarrow> nat \<times> 'e" where
  "uniform_size_call U l h eng = (case U l h eng of (n, eng1) \<Rightarrow> (nat n, eng1))"

text \<open>
  \<open>random_string_distribution\<close> has the call operator of its base class. With the member
  types of the default (\<open>std::uniform_int_distribution\<close> for both) the characters are their
  codes, and \<open>Value_type<Str>{}\<close> is the character of code 0.
\<close>

fun random_string_distribution_call ::
  "(int \<Rightarrow> int \<Rightarrow> 'e \<Rightarrow> int \<times> 'e) \<Rightarrow> 'v dist \<Rightarrow> 'e \<Rightarrow> (int list \<times> 'e) option" where
  "random_string_distribution_call U
     (Random_string_distribution (Uniform_int_distribution l h) (Uniform_int_distribution a b)) eng =
     Some (random_sequence_distribution_call 0 (uniform_size_call U l h) (U a b) eng)"
| "random_string_distribution_call U d eng = None"

subsection \<open>Positions in a container\<close>

text \<open>
  \<open>random_iterator_distribution(Cont& c) : cont(c), dist(0, c.size() - 1)\<close>. The object is
  the container it refers to and the parameters \<open>a\<close> and \<open>b\<close> of \<open>dist\<close>. \<open>c.size()\<close> is a
  \<open>std::size_t\<close>, so the subtraction is done in 64 bits without sign. The constructor has no
  statement that could fail: \<open>Inl\<close> is the result that a rejected construction would have.
\<close>

datatype 'a random_iterator_distribution = Random_iterator_distribution "'a list" int int

datatype contract_violation = Empty_container

definition random_iterator_distribution ::
  "'a list \<Rightarrow> contract_violation + 'a random_iterator_distribution" where
  "random_iterator_distribution c =
     Inr (Random_iterator_distribution c 0 (uint (word_of_nat (length c) - 1 :: 64 word)))"

text \<open>
  \<open>operator()\<close>: \<open>o_next(cont.begin(), dist(eng))\<close>, the position that many steps after the
  first. Position \<open>i\<close> is the position of an element when \<open>i < length c\<close>.
\<close>

fun random_iterator_distribution_call ::
  "(int \<Rightarrow> int \<Rightarrow> 'e \<Rightarrow> int \<times> 'e) \<Rightarrow> 'a random_iterator_distribution \<Rightarrow> 'e \<Rightarrow> nat \<times> 'e" where
  "random_iterator_distribution_call U (Random_iterator_distribution c a b) eng =
     (case U a b eng of (i, eng1) \<Rightarrow> (nat i, eng1))"

subsection \<open>Tuples\<close>

text \<open>
  \<open>random_tuple_generator::operator()\<close> returns \<open>generate<Dists...>(eng)\<close>, and \<open>generate\<close> has
  three overloads, for one, two and three distributions. The tuple \<open>dists\<close> is the list of
  the calls of its components; the values drawn are of one type \<open>'v\<close> here. A call that the
  compiler rejects is a \<open>build_error\<close>.
\<close>

datatype build_error = No_matching_function | Not_callable

text \<open>
  One distribution: \<^verbatim>\<open>return result_type { get<0>(dists(eng)) };\<close> The expression calls the
  tuple \<open>dists\<close> itself, and \<open>std::tuple\<close> has no call operator.
\<close>

definition generate1 :: "('e \<Rightarrow> 'v \<times> 'e) \<Rightarrow> 'e \<Rightarrow> build_error + 'v list \<times> 'e" where
  "generate1 d0 eng = Inl Not_callable"

text \<open>
  Two distributions: \<^verbatim>\<open>return result_type { get<0>(dists)(eng), get<1>(dists)(eng) };\<close>
  The elements of a braced list are evaluated in the order they are written.
\<close>

definition generate2 ::
  "('e \<Rightarrow> 'v \<times> 'e) \<Rightarrow> ('e \<Rightarrow> 'v \<times> 'e) \<Rightarrow> 'e \<Rightarrow> build_error + 'v list \<times> 'e" where
  "generate2 d0 d1 eng =
     (case d0 eng of (v0, eng1) \<Rightarrow>
        (case d1 eng1 of (v1, eng2) \<Rightarrow> Inr ([v0, v1], eng2)))"

text \<open>
  Three distributions:
  \<^verbatim>\<open>return result_type(get<0>(dists)(eng), get<1>(dists)(eng), get<2>(dists)(eng));\<close>
  These are the arguments of a constructor call in parentheses, and C++ leaves the order in
  which the arguments of a call are evaluated to the compiler. \<open>arg_order\<close> is that choice:
  \<open>Order i j k\<close> evaluates argument \<open>i\<close> first, then \<open>j\<close>, then \<open>k\<close>.
\<close>

datatype arg_order =
    Order_012 | Order_021 | Order_102 | Order_120 | Order_201 | Order_210

fun positions :: "arg_order \<Rightarrow> nat \<times> nat \<times> nat" where
  "positions Order_012 = (0, 1, 2)"
| "positions Order_021 = (0, 2, 1)"
| "positions Order_102 = (1, 0, 2)"
| "positions Order_120 = (1, 2, 0)"
| "positions Order_201 = (2, 0, 1)"
| "positions Order_210 = (2, 1, 0)"

definition generate3 ::
  "arg_order \<Rightarrow> ('e \<Rightarrow> 'v \<times> 'e) \<Rightarrow> ('e \<Rightarrow> 'v \<times> 'e) \<Rightarrow> ('e \<Rightarrow> 'v \<times> 'e) \<Rightarrow> 'e
     \<Rightarrow> build_error + 'v list \<times> 'e" where
  "generate3 ord d0 d1 d2 eng =
     (case positions ord of (i, j, k) \<Rightarrow>
        (case ([d0, d1, d2] ! i) eng of (vi, eng1) \<Rightarrow>
           (case ([d0, d1, d2] ! j) eng1 of (vj, eng2) \<Rightarrow>
              (case ([d0, d1, d2] ! k) eng2 of (vk, eng3) \<Rightarrow>
                 Inr ([vi, vi, vi][i := vi, j := vj, k := vk], eng3)))))"

text \<open>
  The overload is chosen by the number of template arguments; no overload takes none or
  more than three.
\<close>

fun random_tuple_generator_call ::
  "arg_order \<Rightarrow> ('e \<Rightarrow> 'v \<times> 'e) list \<Rightarrow> 'e \<Rightarrow> build_error + 'v list \<times> 'e" where
  "random_tuple_generator_call ord [d0] eng = generate1 d0 eng"
| "random_tuple_generator_call ord [d0, d1] eng = generate2 d0 d1 eng"
| "random_tuple_generator_call ord [d0, d1, d2] eng = generate3 ord d0 d1 d2 eng"
| "random_tuple_generator_call ord ds eng = Inl No_matching_function"

text \<open>
  The reading of the spec for tuples: one draw from each distribution, in the order of the
  fields, each from the engine as the draw before it left it.
\<close>

fun draw_each :: "('e \<Rightarrow> 'v \<times> 'e) list \<Rightarrow> 'e \<Rightarrow> 'v list \<times> 'e" where
  "draw_each [] eng = ([], eng)"
| "draw_each (d # ds) eng =
     (case d eng of (v, eng1) \<Rightarrow>
        (case draw_each ds eng1 of (vs, eng2) \<Rightarrow> (v # vs, eng2)))"

section \<open>Properties\<close>

subsection \<open>Successive draws\<close>

lemma draw_n_Suc_fst:
  "fst (draw_n gen (Suc n) eng) = fst (gen eng) # fst (draw_n gen n (snd (gen eng)))"
  by (simp split: prod.splits)

lemma draw_n_Suc_snd: "snd (draw_n gen (Suc n) eng) = snd (draw_n gen n (snd (gen eng)))"
  by (simp split: prod.splits)

lemma generate_draw_n: "generate xs f eng = draw_n f (length xs) eng"
  by (induction xs arbitrary: eng) (simp_all split: prod.splits)

lemma funpow_draw_Suc:
  "((snd \<circ> gen) ^^ Suc n) eng = ((snd \<circ> gen) ^^ n) (snd (gen eng))"
  by (simp only: funpow_Suc_right o_apply)

lemma draw_n_length: "length (fst (draw_n gen n eng)) = n"
proof (induction n arbitrary: eng)
  case 0
  show ?case by simp
next
  case (Suc n)
  show ?case unfolding draw_n_Suc_fst using Suc.IH by simp
qed

lemma draw_n_snd: "snd (draw_n gen n eng) = ((snd \<circ> gen) ^^ n) eng"
proof (induction n arbitrary: eng)
  case 0
  show ?case by simp
next
  case (Suc n)
  show ?case unfolding draw_n_Suc_snd Suc.IH funpow_draw_Suc ..
qed

lemma draw_n_nth: "i < n \<Longrightarrow> fst (draw_n gen n eng) ! i = fst (gen (((snd \<circ> gen) ^^ i) eng))"
proof (induction n arbitrary: eng i)
  case 0
  then show ?case by simp
next
  case (Suc n)
  show ?case
  proof (cases i)
    case 0
    then show ?thesis unfolding draw_n_Suc_fst by simp
  next
    case (Suc j)
    with Suc.prems have "j < n" by simp
    from Suc.IH [OF this, of "snd (gen eng)"] show ?thesis
      unfolding draw_n_Suc_fst Suc funpow_draw_Suc by (simp only: nth_Cons_Suc)
  qed
qed

lemma generate_random_draw_n:
  "lst - first = n \<Longrightarrow> first \<le> lst \<Longrightarrow> lst \<le> length mem \<Longrightarrow>
   generate_random first lst eng gen mem =
     Some (take first mem @ fst (draw_n gen n eng) @ drop lst mem, snd (draw_n gen n eng))"
proof (induction n arbitrary: first eng mem)
  case 0
  then have "first = lst" by simp
  then show ?case by (subst generate_random.simps) simp
next
  case (Suc n)
  then have lt: "first < lst" "first < length mem" by simp_all
  obtain v eng1 where g: "gen eng = (v, eng1)" by (cases "gen eng")
  have "generate_random first lst eng gen mem =
        generate_random (Suc first) lst eng1 gen (mem[first := v])"
    using lt g by (subst generate_random.simps) simp
  also have "\<dots> = Some (take (Suc first) (mem[first := v]) @ fst (draw_n gen n eng1)
                       @ drop lst (mem[first := v]), snd (draw_n gen n eng1))"
    using Suc.prems lt by (intro Suc.IH) simp_all
  also have "take (Suc first) (mem[first := v]) = take first mem @ [v]"
    using lt by (simp add: take_Suc_conv_app_nth)
  also have "drop lst (mem[first := v]) = drop lst mem"
    using lt by simp
  finally show ?case using g by (simp split: prod.splits)
qed

lemma make_random_eq: "make_random gen = gen"
  by (rule ext) (simp add: make_random_def random_variable_call_def)

lemma random_sequence_distribution_call_draw_n:
  "random_sequence_distribution_call init sz gen eng =
     draw_n gen (fst (sz eng)) (snd (sz eng))"
  by (simp add: random_sequence_distribution_call_def make_random_eq generate_draw_n
      split: prod.splits)

text \<open>
  Claim C7. One invocation of a sequence distribution draws the length \<open>n\<close> from the size
  distribution first, on the engine as the caller passed it; the result has exactly \<open>n\<close>
  elements; element \<open>i\<close> is the value of the element distribution on the engine as the
  length draw and the \<open>i\<close> element draws before it left it, so the positions are filled
  from the first to the last; and the engine returned is the one after the length draw and
  \<open>n\<close> element draws.
\<close>

theorem random_sequence_distribution_call_order:
  "\<exists>n eng1 s eng2. sz eng = (n, eng1)
     \<and> random_sequence_distribution_call init sz gen eng = (s, eng2)
     \<and> length s = n
     \<and> (\<forall>i<n. s ! i = fst (gen (((snd \<circ> gen) ^^ i) eng1)))
     \<and> eng2 = ((snd \<circ> gen) ^^ n) eng1"
proof -
  obtain n eng1 where sz: "sz eng = (n, eng1)" by (cases "sz eng")
  let ?r = "draw_n gen n eng1"
  have call: "random_sequence_distribution_call init sz gen eng = (fst ?r, snd ?r)"
    by (simp add: random_sequence_distribution_call_draw_n sz)
  have "length (fst ?r) = n" by (rule draw_n_length)
  moreover have "\<forall>i<n. fst ?r ! i = fst (gen (((snd \<circ> gen) ^^ i) eng1))"
    by (intro allI impI) (rule draw_n_nth)
  moreover have "snd ?r = ((snd \<circ> gen) ^^ n) eng1" by (rule draw_n_snd)
  ultimately show ?thesis using sz call by blast
qed

theorem random_sequence_distribution_call_order_witness:
  "\<exists>s eng2. random_sequence_distribution_call 0 (uniform_size_call counting_uniform_int 3 3)
        counting_stub 0 = (s, eng2)
     \<and> length s = 3 \<and> s ! 0 = 1 \<and> s ! 1 = 2 \<and> s ! 2 = 3 \<and> eng2 = 4"
proof -
  have step: "(snd \<circ> counting_stub) ^^ i = (\<lambda>e. e + i)" for i
    by (induction i) (auto simp: counting_stub_def)
  from random_sequence_distribution_call_order
    [of "uniform_size_call counting_uniform_int 3 3" 0 0 counting_stub]
  obtain s eng2 where
    call: "random_sequence_distribution_call 0 (uniform_size_call counting_uniform_int 3 3)
        counting_stub 0 = (s, eng2)"
    and len: "length s = 3"
    and nth: "\<forall>i<3. s ! i = fst (counting_stub (((snd \<circ> counting_stub) ^^ i) (Suc 0)))"
    and eng: "eng2 = ((snd \<circ> counting_stub) ^^ 3) (Suc 0)"
    by (auto simp: uniform_size_call_def counting_uniform_int_def)
  have "s ! 0 = 1" using nth [rule_format, of 0] by (simp add: step counting_stub_def)
  moreover have "s ! 1 = 2" using nth [rule_format, of 1] by (simp add: step counting_stub_def)
  moreover have "s ! 2 = 3" using nth [rule_format, of 2] by (simp add: step counting_stub_def)
  moreover have "eng2 = 4" using eng by (simp add: step)
  ultimately show ?thesis using call len by blast
qed

text \<open>
  Claim C8. For a destination \<open>[first, lst)\<close> inside \<open>mem\<close>, \<open>generate_random\<close> returns; the
  position \<open>first + i\<close> holds the \<open>i\<close>-th value drawn, every position outside the
  destination is unchanged, and the engine is the one after exactly \<open>lst - first\<close> draws.
  With an empty destination nothing is stored and the engine is untouched. The overload
  that takes a range does the same for the whole range.
\<close>

theorem generate_random_fills_in_range_order:
  assumes "first \<le> lst" and "lst \<le> length mem"
  shows "(\<exists>mem' eng'. generate_random first lst eng gen mem = Some (mem', eng')
            \<and> length mem' = length mem
            \<and> (\<forall>i<lst - first. mem' ! (first + i) = fst (gen (((snd \<circ> gen) ^^ i) eng)))
            \<and> (\<forall>j<length mem. j < first \<or> lst \<le> j \<longrightarrow> mem' ! j = mem ! j)
            \<and> eng' = ((snd \<circ> gen) ^^ (lst - first)) eng)
       \<and> (first = lst \<longrightarrow> generate_random first lst eng gen mem = Some (mem, eng))
       \<and> (\<exists>rng' eng'. generate_random_range mem eng gen = Some (rng', eng')
            \<and> length rng' = length mem
            \<and> (\<forall>i<length mem. rng' ! i = fst (gen (((snd \<circ> gen) ^^ i) eng)))
            \<and> eng' = ((snd \<circ> gen) ^^ length mem) eng)
       \<and> generate_random_range [] eng gen = Some ([], eng)"
proof -
  let ?n = "lst - first"
  let ?vs = "fst (draw_n gen ?n eng)"
  let ?mem' = "take first mem @ ?vs @ drop lst mem"
  have run: "generate_random first lst eng gen mem = Some (?mem', snd (draw_n gen ?n eng))"
    using assms by (intro generate_random_draw_n) simp_all
  have lvs: "length ?vs = ?n" by (rule draw_n_length)
  have len: "length ?mem' = length mem" using assms lvs by simp
  have drawn: "\<forall>i<?n. ?mem' ! (first + i) = fst (gen (((snd \<circ> gen) ^^ i) eng))"
  proof (intro allI impI)
    fix i assume i: "i < ?n"
    have "?mem' ! (first + i) = ?vs ! i"
      using assms i lvs by (simp add: nth_append)
    then show "?mem' ! (first + i) = fst (gen (((snd \<circ> gen) ^^ i) eng))"
      using i by (simp only: draw_n_nth)
  qed
  have kept: "\<forall>j<length mem. j < first \<or> lst \<le> j \<longrightarrow> ?mem' ! j = mem ! j"
  proof (intro allI impI)
    fix j assume j: "j < length mem" and out: "j < first \<or> lst \<le> j"
    show "?mem' ! j = mem ! j"
    proof (cases "j < first")
      case True
      then show ?thesis using assms by (simp add: nth_append)
    next
      case False
      with out have ge: "lst \<le> j" by simp
      have nlt: "\<not> j - first < lst - first" using ge assms by arith
      have idx: "j - first - (lst - first) = j - lst" using ge assms by arith
      have "?mem' ! j = (?vs @ drop lst mem) ! (j - first)"
        using False assms by (simp add: nth_append)
      also have "\<dots> = drop lst mem ! (j - lst)"
        using nlt lvs idx by (simp add: nth_append)
      also have "\<dots> = mem ! j" using ge assms by simp
      finally show ?thesis .
    qed
  qed
  have eng: "snd (draw_n gen ?n eng) = ((snd \<circ> gen) ^^ ?n) eng" by (rule draw_n_snd)
  have iter: "\<exists>mem' eng'. generate_random first lst eng gen mem = Some (mem', eng')
            \<and> length mem' = length mem
            \<and> (\<forall>i<lst - first. mem' ! (first + i) = fst (gen (((snd \<circ> gen) ^^ i) eng)))
            \<and> (\<forall>j<length mem. j < first \<or> lst \<le> j \<longrightarrow> mem' ! j = mem ! j)
            \<and> eng' = ((snd \<circ> gen) ^^ (lst - first)) eng"
    using run len drawn kept eng by blast
  have empty: "first = lst \<longrightarrow> generate_random first lst eng gen mem = Some (mem, eng)"
    by (subst generate_random.simps) simp
  let ?r = "draw_n gen (length mem) eng"
  have rrun: "generate_random_range mem eng gen = Some (fst ?r, snd ?r)"
    unfolding generate_random_range_def
    using generate_random_draw_n [of "length mem" 0 "length mem" mem eng gen] by simp
  have "length (fst ?r) = length mem" by (rule draw_n_length)
  moreover have "\<forall>i<length mem. fst ?r ! i = fst (gen (((snd \<circ> gen) ^^ i) eng))"
    by (intro allI impI) (rule draw_n_nth)
  moreover have "snd ?r = ((snd \<circ> gen) ^^ length mem) eng" by (rule draw_n_snd)
  ultimately have range: "\<exists>rng' eng'. generate_random_range mem eng gen = Some (rng', eng')
            \<and> length rng' = length mem
            \<and> (\<forall>i<length mem. rng' ! i = fst (gen (((snd \<circ> gen) ^^ i) eng)))
            \<and> eng' = ((snd \<circ> gen) ^^ length mem) eng"
    using rrun by blast
  have rempty: "generate_random_range [] eng gen = Some ([], eng)"
    unfolding generate_random_range_def by (subst generate_random.simps) simp
  from iter empty range rempty show ?thesis by blast
qed

theorem generate_random_fills_in_range_order_witness:
  "(1::nat) \<le> 3 \<and> 3 \<le> length [7, 7, 7, 7::nat]
   \<and> (\<exists>mem' eng'. generate_random 1 3 10 counting_stub [7, 7, 7, 7] = Some (mem', eng')
        \<and> mem' ! 0 = 7 \<and> mem' ! 1 = 10 \<and> mem' ! 2 = 11 \<and> mem' ! 3 = 7 \<and> eng' = 12)"
proof -
  have h1: "(1::nat) \<le> 3" by simp
  have h2: "3 \<le> length [7, 7, 7, 7::nat]" by simp
  have step: "(snd \<circ> counting_stub) ^^ i = (\<lambda>e. e + i)" for i
    by (induction i) (auto simp: counting_stub_def)
  from generate_random_fills_in_range_order [OF h1 h2, of 10 counting_stub]
  obtain mem' eng' where
    run: "generate_random 1 3 10 counting_stub [7, 7, 7, 7] = Some (mem', eng')"
    and drawn: "\<forall>i<3 - 1. mem' ! (1 + i) = fst (counting_stub (((snd \<circ> counting_stub) ^^ i) 10))"
    and kept: "\<forall>j<length [7, 7, 7, 7::nat]. j < 1 \<or> 3 \<le> j \<longrightarrow> mem' ! j = [7, 7, 7, 7::nat] ! j"
    and eng: "eng' = ((snd \<circ> counting_stub) ^^ (3 - 1)) 10"
    by blast
  have "mem' ! 0 = 7" using kept [rule_format, of 0] by simp
  moreover have "mem' ! 1 = 10" using drawn [rule_format, of 0] by (simp add: counting_stub_def)
  moreover have "mem' ! 2 = 11"
    using drawn [rule_format, of 1] by (simp add: step counting_stub_def numeral_2_eq_2)
  moreover have "mem' ! 3 = 7" using kept [rule_format, of 3] by simp
  moreover have "eng' = 12" using eng by (simp add: step)
  ultimately show ?thesis using run h1 h2 by blast
qed

subsection \<open>Equality\<close>

lemma dists_eq_list_all2: "dists_eq ds ds' = list_all2 dist_eq ds ds'"
proof (induction ds arbitrary: ds')
  case Nil
  show ?case by (cases ds') simp_all
next
  case (Cons d ds)
  show ?case by (cases ds') (simp_all add: Cons.IH)
qed

lemma dist_eq_same_kind:
  fixes x y :: "'v dist" and xs ys :: "'v dist list"
  shows "kind_of x = kind_of y \<longrightarrow> dist_eq x y = (x = y)"
    and "map kind_of xs = map kind_of ys \<longrightarrow> dists_eq xs ys = (xs = ys)"
  by (induction x y and xs ys rule: dist_eq_dists_eq.induct) auto

lemma dist_eq_refl: "dist_eq x x"
  using dist_eq_same_kind(1) [of x x] by simp

text \<open>
  Claim C9. Two distribution objects of the same concrete kind compare equal exactly when
  their construction parameters are equal, at every depth: two sequence distributions
  exactly when their size distributions and their element distributions compare equal,
  two adapted distributions exactly when the distributions inside do, and two tuple
  generators exactly when their components do, pair by pair in order.
\<close>

theorem dist_eq_iff_parameters_equal:
  "(kind_of x = kind_of y \<longrightarrow> dist_eq x y = (x = y))
   \<and> dist_eq (Random_sequence_distribution s g) (Random_sequence_distribution s' g')
       = (dist_eq s s' \<and> dist_eq g g')
   \<and> dist_eq (Adapted_distribution d) (Adapted_distribution d') = dist_eq d d'
   \<and> dist_eq (Random_tuple_generator ds) (Random_tuple_generator ds')
       = list_all2 dist_eq ds ds'"
  using dist_eq_same_kind(1) [of x y] by (simp add: dists_eq_list_all2)

theorem dist_eq_iff_parameters_equal_witness:
  "kind_of (Random_tuple_generator
       [Single_value_distribution (5::nat),
        Random_sequence_distribution (Uniform_int_distribution 0 32) (Bernoulli_distribution (1 / 2))])
     = kind_of (Random_tuple_generator
       [Single_value_distribution (5::nat),
        Random_sequence_distribution (Uniform_int_distribution 0 33) (Bernoulli_distribution (1 / 2))])
   \<and> \<not> dist_eq (Random_tuple_generator
       [Single_value_distribution (5::nat),
        Random_sequence_distribution (Uniform_int_distribution 0 32) (Bernoulli_distribution (1 / 2))])
     (Random_tuple_generator
       [Single_value_distribution (5::nat),
        Random_sequence_distribution (Uniform_int_distribution 0 33) (Bernoulli_distribution (1 / 2))])
   \<and> dist_eq (Random_tuple_generator
       [Single_value_distribution (5::nat),
        Random_sequence_distribution (Uniform_int_distribution 0 32) (Bernoulli_distribution (1 / 2))])
     (Random_tuple_generator
       [Single_value_distribution (5::nat),
        Random_sequence_distribution (Uniform_int_distribution 0 32) (Bernoulli_distribution (1 / 2))])"
  using dist_eq_iff_parameters_equal
    [of "Random_tuple_generator
       [Single_value_distribution (5::nat),
        Random_sequence_distribution (Uniform_int_distribution 0 32) (Bernoulli_distribution (1 / 2))]"
      "Random_tuple_generator
       [Single_value_distribution (5::nat),
        Random_sequence_distribution (Uniform_int_distribution 0 33) (Bernoulli_distribution (1 / 2))]"]
  by simp

subsection \<open>The registry\<close>

lemma default_distribution_Sequence_of:
  "default_distribution (Sequence_of T) =
     (case default_distribution T of None \<Rightarrow> None
      | Some g \<Rightarrow> Some (Random_sequence_distribution (Uniform_int_distribution 0 32) g))"
  by (simp add: default_distribution_def Arithmetic_def size_t_def split: option.splits)

lemma traits_all_length:
  "default_distribution_traits_all Ts = Some Ds \<Longrightarrow> length Ds = length Ts"
  by (induction Ts arbitrary: Ds) (auto split: option.splits)

lemma those_default_distribution:
  "those (map default_distribution Ts) =
     (case default_distribution_traits_all Ts of None \<Rightarrow> None
      | Some Ds \<Rightarrow> default_construct_all Ds)"
  by (induction Ts) (auto simp: default_distribution_def split: option.splits)

lemma default_distribution_Tuple:
  "default_distribution (Tuple Args) =
     (if Args = [] then None
      else (case those (map default_distribution Args) of None \<Rightarrow> None
        | Some ds \<Rightarrow> Some (Random_tuple_generator ds)))"
proof (cases "default_distribution_traits_all Args")
  case None
  then show ?thesis
    by (simp add: default_distribution_def those_default_distribution)
next
  case (Some Ds)
  then have "length Ds = length Args" by (rule traits_all_length)
  then have "Ds = [] \<longleftrightarrow> Args = []" by auto
  then show ?thesis using Some
    by (simp add: default_distribution_def those_default_distribution)
qed

lemma default_distribution_Integer:
  "default_distribution (Integer s w) =
     Some (Uniform_int_distribution 0 (numeric_limits_max (Integer s w)))"
  by (simp add: default_distribution_def Arithmetic_def arithmetic_distribution_def
      default_integral_distribution_def)

lemma default_distribution_Floating:
  "default_distribution (Floating f) = Some (Uniform_real_distribution 0 1)"
  by (simp add: default_distribution_def Arithmetic_def arithmetic_distribution_def
      default_floating_point_distribution_def)

lemma default_distribution_Bool:
  "default_distribution Bool = Some (Bernoulli_distribution (1 / 2))"
  by (simp add: default_distribution_def)

lemma default_distribution_Basic_string:
  "default_distribution (Basic_string C) =
     Some (Random_string_distribution (Uniform_int_distribution 0 32)
             (Uniform_int_distribution 33 126))"
  by (simp add: default_distribution_def size_t_def)

lemma default_distribution_no_default:
  "default_distribution (Associative_of T) = None" "default_distribution Other_type = None"
  by (simp_all add: default_distribution_def Arithmetic_def)

lemma generic_sequence_default_of_string:
  "(case default_sequence_distribution (Basic_string C) of None \<Rightarrow> None
     | Some D \<Rightarrow> default_construct D) =
   (case default_distribution C of None \<Rightarrow> None
     | Some g \<Rightarrow> Some (Random_sequence_distribution (Uniform_int_distribution 0 32) g))"
  by (simp add: default_distribution_def size_t_def split: option.splits)

text \<open>
  Claim C1. The registry resolves \<open>bool\<close> to the Bernoulli distribution, a string type to
  the string distribution and a tuple type to the tuple generator of the defaults of its
  components; these win over the categories, although \<open>bool\<close> is integral and a string is
  a sequence: the default of a string is never the generic sequence default. Every other
  integral type resolves to the uniform integer distribution, a floating-point type to the
  uniform real distribution, a sequence type to the sequence distribution over the default
  of its elements, and a type of no category has no default.
\<close>

theorem default_distribution_priority:
  "(default_distribution Bool :: 'v dist option) = Some (Bernoulli_distribution (1 / 2))
   \<and> (default_distribution (Basic_string C) :: 'v dist option) =
       Some (Random_string_distribution (Uniform_int_distribution 0 32)
               (Uniform_int_distribution 33 126))
   \<and> (Args \<noteq> [] \<longrightarrow>
        (default_distribution (Tuple Args) :: 'v dist option) =
          (case those (map default_distribution Args) of None \<Rightarrow> None
           | Some ds \<Rightarrow> Some (Random_tuple_generator ds)))
   \<and> (default_distribution (Integer s w) :: 'v dist option) =
       Some (Uniform_int_distribution 0 (numeric_limits_max (Integer s w)))
   \<and> (default_distribution (Floating f) :: 'v dist option) =
       Some (Uniform_real_distribution 0 1)
   \<and> (default_distribution (Sequence_of T) :: 'v dist option) =
       (case default_distribution T of None \<Rightarrow> None
        | Some g \<Rightarrow> Some (Random_sequence_distribution (Uniform_int_distribution 0 32) g))
   \<and> (default_distribution (Associative_of T) :: 'v dist option) = None
   \<and> (default_distribution Other_type :: 'v dist option) = None
   \<and> Integral Bool
   \<and> (default_distribution Bool :: 'v dist option) \<noteq>
       (case default_integral_distribution Bool of None \<Rightarrow> None
        | Some D \<Rightarrow> default_construct D)
   \<and> Sequence (Basic_string C)
   \<and> (default_distribution (Basic_string C) :: 'v dist option) \<noteq>
       (case default_sequence_distribution (Basic_string C) of None \<Rightarrow> None
        | Some D \<Rightarrow> default_construct D)"
proof -
  have bool_cat: "(default_distribution Bool :: 'v dist option) \<noteq>
       (case default_integral_distribution Bool of None \<Rightarrow> None
        | Some D \<Rightarrow> default_construct D)"
    by (simp add: default_distribution_Bool default_integral_distribution_def)
  have string_cat: "(default_distribution (Basic_string C) :: 'v dist option) \<noteq>
       (case default_sequence_distribution (Basic_string C) of None \<Rightarrow> None
        | Some D \<Rightarrow> default_construct D)"
    unfolding generic_sequence_default_of_string default_distribution_Basic_string
    by (simp split: option.splits)
  show ?thesis
    using bool_cat string_cat
    by (simp only: default_distribution_Bool default_distribution_Basic_string
        default_distribution_Tuple default_distribution_Integer default_distribution_Floating
        default_distribution_Sequence_of default_distribution_no_default
        Integral.simps Sequence.simps) simp
qed

theorem default_distribution_priority_witness:
  "[Bool, Basic_string (Integer True 8), Sequence_of (Floating Double)] \<noteq> []
   \<and> (default_distribution
        (Tuple [Bool, Basic_string (Integer True 8), Sequence_of (Floating Double)])
        :: unit dist option) =
       Some (Random_tuple_generator
         [Bernoulli_distribution (1 / 2),
          Random_string_distribution (Uniform_int_distribution 0 32)
            (Uniform_int_distribution 33 126),
          Random_sequence_distribution (Uniform_int_distribution 0 32)
            (Uniform_real_distribution 0 1)])"
  using default_distribution_priority
    [where ?'v = unit and Args = "[Bool, Basic_string (Integer True 8), Sequence_of (Floating Double)]"
      and C = "Integer True 8" and f = Double and T = "Floating Double"]
  by (simp add: default_distribution_Bool)

text \<open>
  Claim C2, as stated, fails for the signed integer types: the default of a 32-bit signed
  integer starts at 0, not at the least value of the type.
\<close>

theorem default_integral_distribution_full_range_counterexample:
  "(default_distribution (Integer True 32) :: unit dist option) \<noteq>
     Some (Uniform_int_distribution (numeric_limits_min (Integer True 32))
             (numeric_limits_max (Integer True 32)))"
  by (simp add: default_distribution_Integer)

text \<open>
  Claim C2, amended. For every integral type \<open>T\<close> other than \<open>bool\<close> the registry returns
  the uniform integer distribution over \<open>[0, max T]\<close>, both included, built with no
  argument; for the unsigned types this is the full range of the type.
\<close>

theorem default_integral_distribution_range:
  "(default_distribution (Integer s w) :: 'v dist option) =
     Some (Uniform_int_distribution 0 (numeric_limits_max (Integer s w)))
   \<and> (default_distribution (Integer False w) :: 'v dist option) =
     Some (Uniform_int_distribution (numeric_limits_min (Integer False w))
             (numeric_limits_max (Integer False w)))"
  by (simp add: default_distribution_Integer)

lemma floating_max_gt_1: "1 < floating_max f"
proof -
  have "(1::real) < (2 ^ a - 1) * 2 ^ b" if "2 \<le> a" for a b :: nat
  proof -
    have "(2::real) ^ 2 \<le> 2 ^ a" using that by (intro power_increasing) simp_all
    then have "(3::real) \<le> 2 ^ a - 1" by simp
    moreover have "(1::real) \<le> 2 ^ b" by simp
    ultimately have "(3::real) * 1 \<le> (2 ^ a - 1) * 2 ^ b"
      by (intro mult_mono) simp_all
    then show ?thesis by simp
  qed
  then show ?thesis by (cases f) simp_all
qed

text \<open>
  Claim C3. The registry's default for a floating-point type is the default-constructed
  \<open>std::uniform_real_distribution\<close>, whose parameters are 0 and 1; it is not the
  distribution over the full range of the type, from the lowest finite value to the
  largest.
\<close>

theorem default_floating_point_distribution_unit_interval:
  "(default_distribution (Floating f) :: 'v dist option) = Some (Uniform_real_distribution 0 1)
   \<and> (default_distribution (Floating f) :: 'v dist option) \<noteq>
       Some (Uniform_real_distribution (- floating_max f) (floating_max f))"
  using floating_max_gt_1 [of f] by (simp add: default_distribution_Floating)

text \<open>
  Claim C10. When the element type has the registry default \<open>g\<close>, the default of the
  sequence type is the sequence distribution whose size member is the uniform integer
  distribution over \<open>[0, 32]\<close> and whose element member is \<open>g\<close>; two such defaults for
  the same sequence type compare equal.
\<close>

theorem default_sequence_distribution_members:
  fixes g :: "'v dist"
  assumes "default_distribution T = Some g"
  shows "default_distribution (Sequence_of T) =
       Some (Random_sequence_distribution (Uniform_int_distribution 0 32) g)
     \<and> (\<forall>d d' :: 'v dist. default_distribution (Sequence_of T) = Some d
           \<and> default_distribution (Sequence_of T) = Some d' \<longrightarrow> dist_eq d d')"
  using assms by (auto simp add: default_distribution_Sequence_of dist_eq_refl)

theorem default_sequence_distribution_members_witness:
  "(default_distribution (Integer True 32) :: unit dist option) =
     Some (Uniform_int_distribution 0 2147483647)
   \<and> (default_distribution (Sequence_of (Integer True 32)) :: unit dist option) =
       Some (Random_sequence_distribution (Uniform_int_distribution 0 32)
               (Uniform_int_distribution 0 2147483647))
   \<and> dist_eq
       (Random_sequence_distribution (Uniform_int_distribution 0 32)
               (Uniform_int_distribution 0 2147483647) :: unit dist)
       (Random_sequence_distribution (Uniform_int_distribution 0 32)
               (Uniform_int_distribution 0 2147483647))"
proof -
  have h: "(default_distribution (Integer True 32) :: unit dist option) =
     Some (Uniform_int_distribution 0 2147483647)"
    by (simp add: default_distribution_Integer)
  from default_sequence_distribution_members [OF h] show ?thesis using h by simp
qed

subsection \<open>Positions in a container\<close>

lemma uniform_int_contract_counting: "uniform_int_contract counting_uniform_int"
proof -
  have "a \<le> a + int eng mod (b - a + 1) \<and> a + int eng mod (b - a + 1) \<le> b"
    if "a \<le> b" for a b :: int and eng :: nat
    using that pos_mod_bound [of "b - a + 1" "int eng"] pos_mod_sign [of "b - a + 1" "int eng"]
    by linarith
  then show ?thesis
    unfolding uniform_int_contract_def counting_uniform_int_def by simp
qed

lemma size_minus_one:
  assumes "0 < n" and "n < 2 ^ 64"
  shows "uint (word_of_nat n - 1 :: 64 word) = int n - 1"
proof -
  have eq1: "(word_of_nat n - 1 :: 64 word) = word_of_nat (n - 1)"
    using assms by (simp add: of_nat_diff)
  have "unat (word_of_nat (n - 1) :: 64 word) = (n - 1) mod 2 ^ LENGTH(64)"
    by (rule unat_of_nat)
  also have "\<dots> = n - 1" using assms by simp
  finally have eq2: "unat (word_of_nat (n - 1) :: 64 word) = n - 1" .
  have "uint (word_of_nat n - 1 :: 64 word) = int (unat (word_of_nat (n - 1) :: 64 word))"
    by (simp only: eq1 uint_nat)
  also have "\<dots> = int (n - 1)" by (simp only: eq2)
  also have "\<dots> = int n - 1" using assms(1) by simp
  finally show ?thesis .
qed

lemma size_minus_one_empty: "uint (word_of_nat 0 - 1 :: 64 word) = 18446744073709551615"
  by (simp add: unsigned_minus_1_eq_mask mask_eq_exp_minus_1)

text \<open>
  Claim C4, as stated, fails: over an empty container the constructor returns an object,
  with the index range \<open>[0, 2\<^sup>6\<^sup>4 - 1]\<close> that \<open>c.size() - 1\<close> wraps around to, and a call
  of the object returns a position, here position 5 of a container with no element.
\<close>

theorem random_iterator_distribution_empty_counterexample:
  "random_iterator_distribution ([] :: nat list) =
     Inr (Random_iterator_distribution [] 0 18446744073709551615)
   \<and> fst (random_iterator_distribution_call counting_uniform_int
          (Random_iterator_distribution ([] :: nat list) 0 18446744073709551615) 5) = 5"
  by (simp add: random_iterator_distribution_def counting_uniform_int_def
      unsigned_minus_1_eq_mask mask_eq_exp_minus_1)

text \<open>
  Claim C4, amended. The constructor checks nothing and never fails. Over a container
  that is not empty the index range is \<open>[0, size - 1]\<close>, and every call returns the
  position of an element of the container. That the container is not empty is a
  precondition left to the caller.
\<close>

theorem random_iterator_distribution_positions:
  assumes "c \<noteq> []" and "length c < 2 ^ 64" and "uniform_int_contract U"
  shows "random_iterator_distribution c =
           Inr (Random_iterator_distribution c 0 (int (length c) - 1))
         \<and> fst (random_iterator_distribution_call U
                 (Random_iterator_distribution c 0 (int (length c) - 1)) eng) < length c"
proof -
  have pos: "0 < length c" using assms(1) by simp
  have b: "uint (word_of_nat (length c) - 1 :: 64 word) = int (length c) - 1"
    using pos assms(2) by (rule size_minus_one)
  have le: "(0::int) \<le> int (length c) - 1" using pos by simp
  from assms(3) le have
    "0 \<le> fst (U 0 (int (length c) - 1) eng) \<and> fst (U 0 (int (length c) - 1) eng) \<le> int (length c) - 1"
    unfolding uniform_int_contract_def by blast
  then have "nat (fst (U 0 (int (length c) - 1) eng)) < length c" by linarith
  then show ?thesis
    by (cases "U 0 (int (length c) - 1) eng") (simp add: random_iterator_distribution_def b)
qed

theorem random_iterator_distribution_positions_witness:
  "[10, 20, 30 :: nat] \<noteq> [] \<and> length [10, 20, 30 :: nat] < 2 ^ 64
   \<and> uniform_int_contract counting_uniform_int
   \<and> random_iterator_distribution [10, 20, 30 :: nat] =
        Inr (Random_iterator_distribution [10, 20, 30] 0 2)
   \<and> fst (random_iterator_distribution_call counting_uniform_int
          (Random_iterator_distribution [10, 20, 30 :: nat] 0 2) 5) < 3"
proof -
  have h1: "[10, 20, 30 :: nat] \<noteq> []" by simp
  have h2: "length [10, 20, 30 :: nat] < 2 ^ 64" by simp
  from random_iterator_distribution_positions [OF h1 h2 uniform_int_contract_counting, of 5]
  show ?thesis using h1 h2 uniform_int_contract_counting by simp
qed

subsection \<open>Tuples\<close>

text \<open>
  Claim C5, as stated, fails: a generator over four distributions has no \<open>generate\<close> to
  call, where the claim has four values drawn in order. (Over one distribution the call
  does not compile either, and over three the draws are made in the order of the fields
  only if the compiler evaluates the arguments from the left: from the right, the first
  field receives the third value drawn.)
\<close>

theorem random_tuple_generator_every_arity_counterexample:
  "random_tuple_generator_call Order_012
       [counting_stub, counting_stub, counting_stub, counting_stub] 0 = Inl No_matching_function
   \<and> draw_each [counting_stub, counting_stub, counting_stub, counting_stub] 0 = ([0, 1, 2, 3], 4)
   \<and> random_tuple_generator_call Order_012 [counting_stub] 0 = Inl Not_callable
   \<and> random_tuple_generator_call Order_210 [counting_stub, counting_stub, counting_stub] 0
       = Inr ([2, 1, 0], 3)
   \<and> draw_each [counting_stub, counting_stub, counting_stub] 0 = ([0, 1, 2], 3)"
  by (simp add: counting_stub_def generate1_def generate3_def)

lemma generate3_positions:
  "\<exists>vs eng'. generate3 ord d0 d1 d2 eng = Inr (vs, eng') \<and> length vs = 3
     \<and> (\<exists>e. vs ! 0 = fst (d0 e)) \<and> (\<exists>e. vs ! 1 = fst (d1 e)) \<and> (\<exists>e. vs ! 2 = fst (d2 e))"
  by (cases ord; simp add: generate3_def split: prod.splits; metis fst_conv)

text \<open>
  Claim C5, amended. Over two distributions, a call draws from the first, then from the
  second on the engine as the first left it, and returns the two values in that order.
  Over three distributions the \<open>i\<close>-th component is a value of the \<open>i\<close>-th distribution
  whatever the order of evaluation, and the draws are made in the order of the fields when
  the arguments are evaluated from the left. Over no distribution or more than three, the
  call has no matching function.
\<close>

theorem random_tuple_generator_call_arities:
  "random_tuple_generator_call ord [d0, d1] eng =
     Inr ([fst (d0 eng), fst (d1 (snd (d0 eng)))], snd (d1 (snd (d0 eng))))
   \<and> random_tuple_generator_call ord [d0, d1] eng = Inr (draw_each [d0, d1] eng)
   \<and> random_tuple_generator_call Order_012 [d0, d1, d2] eng =
     Inr ([fst (d0 eng), fst (d1 (snd (d0 eng))), fst (d2 (snd (d1 (snd (d0 eng)))))],
          snd (d2 (snd (d1 (snd (d0 eng))))))
   \<and> random_tuple_generator_call Order_012 [d0, d1, d2] eng = Inr (draw_each [d0, d1, d2] eng)
   \<and> (\<exists>vs eng'. random_tuple_generator_call ord [d0, d1, d2] eng = Inr (vs, eng')
        \<and> length vs = 3
        \<and> (\<exists>e. vs ! 0 = fst (d0 e)) \<and> (\<exists>e. vs ! 1 = fst (d1 e)) \<and> (\<exists>e. vs ! 2 = fst (d2 e)))
   \<and> random_tuple_generator_call ord [] eng = Inl No_matching_function
   \<and> random_tuple_generator_call ord (d0 # d1 # d2 # d3 # ds) eng = Inl No_matching_function"
proof -
  have two: "random_tuple_generator_call ord [d0, d1] eng =
     Inr ([fst (d0 eng), fst (d1 (snd (d0 eng)))], snd (d1 (snd (d0 eng))))"
    by (simp add: generate2_def split: prod.splits)
  have two': "random_tuple_generator_call ord [d0, d1] eng = Inr (draw_each [d0, d1] eng)"
    by (simp add: generate2_def split: prod.splits)
  have three: "random_tuple_generator_call Order_012 [d0, d1, d2] eng =
     Inr ([fst (d0 eng), fst (d1 (snd (d0 eng))), fst (d2 (snd (d1 (snd (d0 eng)))))],
          snd (d2 (snd (d1 (snd (d0 eng))))))"
    by (simp add: generate3_def split: prod.splits)
  have three': "random_tuple_generator_call Order_012 [d0, d1, d2] eng
     = Inr (draw_each [d0, d1, d2] eng)"
    by (simp add: generate3_def split: prod.splits)
  have any: "\<exists>vs eng'. random_tuple_generator_call ord [d0, d1, d2] eng = Inr (vs, eng')
        \<and> length vs = 3
        \<and> (\<exists>e. vs ! 0 = fst (d0 e)) \<and> (\<exists>e. vs ! 1 = fst (d1 e)) \<and> (\<exists>e. vs ! 2 = fst (d2 e))"
    using generate3_positions [of ord d0 d1 d2 eng] by simp
  have none: "random_tuple_generator_call ord [] eng = Inl No_matching_function" by simp
  have more: "random_tuple_generator_call ord (d0 # d1 # d2 # d3 # ds) eng
     = Inl No_matching_function" by simp
  from two two' three three' any none more show ?thesis by (intro conjI)
qed

subsection \<open>Strings\<close>

lemma draw_n_set:
  assumes "x \<in> set (fst (draw_n gen n eng))"
  shows "\<exists>e. x = fst (gen e)"
proof -
  from assms obtain i where i: "i < length (fst (draw_n gen n eng))"
    and x: "x = fst (draw_n gen n eng) ! i"
    by (auto simp: in_set_conv_nth)
  from i have "i < n" by (simp only: draw_n_length)
  then have "fst (draw_n gen n eng) ! i = fst (gen (((snd \<circ> gen) ^^ i) eng))"
    by (rule draw_n_nth)
  with x show ?thesis by blast
qed

text \<open>
  Claim C6. With a uniform integer draw that keeps to its bounds, every string that the
  default string distribution generates has at most 32 characters, and each of them has a
  code from 33 to 126.
\<close>

theorem default_string_distribution_bounds:
  fixes U :: "int \<Rightarrow> int \<Rightarrow> 'e \<Rightarrow> int \<times> 'e"
  assumes "uniform_int_contract U"
  shows "\<exists>(d :: 'v dist) s eng'. default_distribution (Basic_string C) = Some d
           \<and> random_string_distribution_call U d eng = Some (s, eng')
           \<and> length s \<le> 32 \<and> (\<forall>c\<in>set s. 33 \<le> c \<and> c \<le> 126)"
proof -
  let ?d = "Random_string_distribution (Uniform_int_distribution 0 32)
              (Uniform_int_distribution 33 126) :: 'v dist"
  let ?n = "fst (uniform_size_call U 0 32 eng)"
  let ?e1 = "snd (uniform_size_call U 0 32 eng)"
  let ?r = "draw_n (U 33 126) ?n ?e1"
  have reg: "default_distribution (Basic_string C) = Some ?d"
    by (rule default_distribution_Basic_string)
  have call: "random_string_distribution_call U ?d eng = Some (fst ?r, snd ?r)"
    by (simp add: random_sequence_distribution_call_draw_n)
  have "0 \<le> fst (U 0 32 eng) \<and> fst (U 0 32 eng) \<le> 32"
    using assms unfolding uniform_int_contract_def by simp
  then have "?n \<le> 32"
    by (cases "U 0 32 eng") (auto simp: uniform_size_call_def)
  then have len: "length (fst ?r) \<le> 32" by (simp only: draw_n_length)
  have chars: "\<forall>c\<in>set (fst ?r). 33 \<le> c \<and> c \<le> 126"
  proof
    fix c assume "c \<in> set (fst ?r)"
    then obtain e where "c = fst (U 33 126 e)" using draw_n_set by fast
    then show "33 \<le> c \<and> c \<le> 126"
      using assms unfolding uniform_int_contract_def by simp
  qed
  from reg call len chars show ?thesis by blast
qed

theorem default_string_distribution_bounds_witness:
  "uniform_int_contract counting_uniform_int
   \<and> (\<exists>(d :: unit dist) s eng'. default_distribution (Basic_string (Integer True 8)) = Some d
           \<and> random_string_distribution_call counting_uniform_int d 5 = Some (s, eng')
           \<and> length s \<le> 32 \<and> (\<forall>c\<in>set s. 33 \<le> c \<and> c \<le> 126))
   \<and> random_string_distribution_call counting_uniform_int
        (Random_string_distribution (Uniform_int_distribution 0 32)
              (Uniform_int_distribution 33 126) :: unit dist) 5
       = Some ([39, 40, 41, 42, 43], 11)"
proof -
  have run: "random_string_distribution_call counting_uniform_int
        (Random_string_distribution (Uniform_int_distribution 0 32)
              (Uniform_int_distribution 33 126) :: unit dist) 5
       = Some ([39, 40, 41, 42, 43], 11)"
    by (simp add: random_sequence_distribution_call_def make_random_eq uniform_size_call_def
        counting_uniform_int_def numeral_eq_Suc)
  from default_string_distribution_bounds
    [OF uniform_int_contract_counting, where ?'v = unit and C = "Integer True 8" and eng = 5]
  show ?thesis using uniform_int_contract_counting run by blast
qed

end
